theory Spec2Isabelle
  imports Complex_Main "HOL-Library.Multiset"
begin

section \<open>Python values and failures\<close>

text \<open>
  The notebooks are Python. A raised exception is the left summand of a result; these
  are the exceptions the notebook code and the library calls it makes can raise.
\<close>

datatype error = TypeError | KeyError | IndexError | ValueError

text \<open>
  \<^verbatim>\<open>xs[i]\<close> on a Python list: a negative index counts from the end, and an index
  outside the list raises IndexError.
\<close>

definition py_index :: "'a list \<Rightarrow> int \<Rightarrow> error + 'a" where
  "py_index xs i =
     (if 0 \<le> i \<and> i < int (length xs) then Inr (xs ! nat i)
      else if i < 0 \<and> - int (length xs) \<le> i then Inr (xs ! nat (int (length xs) + i))
      else Inl IndexError)"

text \<open>\<^verbatim>\<open>[v] * N\<close>: the list of \<open>N\<close> copies of \<open>v\<close>, empty when \<open>N \<le> 0\<close>.\<close>

definition py_list_mul :: "'a \<Rightarrow> int \<Rightarrow> 'a list" where
  "py_list_mul v N = replicate (nat N) v"

section \<open>Part 1: bootstrap confidence interval\<close>

text \<open>
  \<^verbatim>\<open>
  def bootstrap_distribution(Y_true, Y_pred, N):
      bootstrap_vals = [0]*N
      return bootstrap_vals
  \<close>
  The metric values are numbers; they are modelled as exact rationals.
\<close>

definition bootstrap_distribution :: "string list \<Rightarrow> string list \<Rightarrow> int \<Rightarrow> rat list" where
  "bootstrap_distribution Y_true Y_pred N = (let bootstrap_vals = py_list_mul 0 N in bootstrap_vals)"

definition NUM_BOOTSTRAP :: int where
  "NUM_BOOTSTRAP = 1000"

text \<open>
  The interval read off a list of bootstrap values:
  \<^verbatim>\<open>
  bs_vals = sorted(bs_vals)
  print("95 percent confidence interval: [{0}, {1}]".format(
      bs_vals[25],    # 2.5th percentile
      bs_vals[975]    # 97.5th percentile
  ))
  \<close>
  The two arguments of \<open>format\<close> are evaluated left to right; the result is the pair
  that is printed.
\<close>

definition interval_of :: "rat list \<Rightarrow> error + (rat \<times> rat)" where
  "interval_of vals =
     (let bs_vals = sort vals
      in case py_index bs_vals 25 of
           Inl e \<Rightarrow> Inl e
         | Inr lo \<Rightarrow> (case py_index bs_vals 975 of
                        Inl e \<Rightarrow> Inl e
                      | Inr hi \<Rightarrow> Inr (lo, hi)))"

text \<open>
  The cell: \<^verbatim>\<open>bs_vals = bootstrap_distribution(Y_true, Y_pred, NUM_BOOTSTRAP)\<close>
  followed by the interval, with the trial count as a parameter.
\<close>

definition confidence_interval :: "string list \<Rightarrow> string list \<Rightarrow> int \<Rightarrow> error + (rat \<times> rat)" where
  "confidence_interval Y_true Y_pred N = interval_of (bootstrap_distribution Y_true Y_pred N)"

text \<open>
  The second cell runs the same code on the cohort lists, which the notebook leaves
  empty: \<^verbatim>\<open>Y_true_health = []\<close>, \<^verbatim>\<open>Y_pred_health = []\<close>.
\<close>

definition Y_true_health :: "string list" where
  "Y_true_health = []"

definition Y_pred_health :: "string list" where
  "Y_pred_health = []"

definition health_interval :: "error + (rat \<times> rat)" where
  "health_interval = confidence_interval Y_true_health Y_pred_health NUM_BOOTSTRAP"

subsection \<open>The accuracy metric\<close>

text \<open>
  Modelled from the spec: \<^verbatim>\<open>accuracy_score\<close> is imported from sklearn.metrics and is
  not defined in src/. The accuracy of a collection of (true, predicted) pairs is the
  count of pairs whose predicted label is the true one, divided by the count of pairs.
  On no pairs HOL's quotient is 0, where the metric has no value: \<open>ratio_correct\<close> is
  used on lists known to be non-empty only, and \<open>accuracy_of_pairs\<close> keeps the
  undefined case apart.
\<close>

definition ratio_correct :: "(string \<times> string) list \<Rightarrow> rat" where
  "ratio_correct ps = of_nat (length (filter (\<lambda>(t, p). p = t) ps)) / of_nat (length ps)"

text \<open>
  Modelled from the spec: the accuracy as an optional value, \<open>None\<close> on no pairs.
\<close>

definition accuracy_of_pairs :: "(string \<times> string) list \<Rightarrow> rat option" where
  "accuracy_of_pairs ps = (if ps = [] then None else Some (ratio_correct ps))"

text \<open>
  Modelled from the spec: \<^verbatim>\<open>accuracy_score(Y_true, Y_pred)\<close>, the call of Part 1,
  on the two label lists; the library function, absent from src/, refuses lists of
  different lengths.
\<close>

definition accuracy_score :: "string list \<Rightarrow> string list \<Rightarrow> error + rat option" where
  "accuracy_score y_true y_pred =
     (if length y_true \<noteq> length y_pred then Inl ValueError
      else Inr (accuracy_of_pairs (zip y_true y_pred)))"

subsection \<open>The procedure the docstring and the markdown cell describe\<close>

text \<open>
  The notebook's text asks for \<open>N\<close> bootstrap samples, each as large as the original
  and drawn with replacement, the metric on each, and the sorted values. The random draws
  are made explicit: \<open>draws\<close> holds, for each trial, the indices drawn. These definitions
  follow the description, for comparison with \<open>bootstrap_distribution\<close>.
\<close>

definition resample :: "string list \<Rightarrow> string list \<Rightarrow> nat list \<Rightarrow> (string \<times> string) list" where
  "resample Y_true Y_pred idx = map (\<lambda>i. (Y_true ! i, Y_pred ! i)) idx"

definition valid_draws :: "nat \<Rightarrow> nat \<Rightarrow> nat list list \<Rightarrow> bool" where
  "valid_draws M N draws \<longleftrightarrow>
     length draws = N \<and> list_all (\<lambda>idx. length idx = M \<and> list_all (\<lambda>i. i < M) idx) draws"

definition described_bootstrap_distribution ::
  "nat list list \<Rightarrow> string list \<Rightarrow> string list \<Rightarrow> rat list" where
  "described_bootstrap_distribution draws Y_true Y_pred =
     map (\<lambda>idx. ratio_correct (resample Y_true Y_pred idx)) draws"

section \<open>Part 2: dates, tables and rows\<close>

text \<open>
  A \<^verbatim>\<open>datetime.date\<close> is modelled by its proleptic Gregorian ordinal, as
  \<^verbatim>\<open>date.toordinal\<close> computes it; adding \<^verbatim>\<open>timedelta(days=d)\<close> adds \<open>d\<close>, the
  difference of two dates has \<^verbatim>\<open>.days\<close> equal to the difference of the ordinals, and
  two dates are equal when their ordinals are.
\<close>

type_synonym date = int

definition is_leap :: "int \<Rightarrow> bool" where
  "is_leap y \<longleftrightarrow> y mod 4 = 0 \<and> (y mod 100 \<noteq> 0 \<or> y mod 400 = 0)"

definition days_before_year :: "int \<Rightarrow> int" where
  "days_before_year y = (y - 1) * 365 + (y - 1) div 4 - (y - 1) div 100 + (y - 1) div 400"

definition days_before_month :: "int \<Rightarrow> int \<Rightarrow> int" where
  "days_before_month y m =
     sum_list (take (nat (m - 1)) [31, 28, 31, 30, 31, 30, 31, 31, 30, 31, 30, 31])
       + (if 2 < m \<and> is_leap y then 1 else 0)"

definition mk_date :: "int \<Rightarrow> int \<Rightarrow> int \<Rightarrow> date" where
  "mk_date y m d = days_before_year y + days_before_month y m + d"

definition LOG_DATE_START :: date where
  "LOG_DATE_START = mk_date 2022 10 1"

definition LOG_DATE_END :: date where
  "LOG_DATE_END = mk_date 2022 10 14"

text \<open>\<^verbatim>\<open>range(n)\<close>: the integers from 0 up to \<open>n - 1\<close>, none when \<open>n \<le> 0\<close>.\<close>

definition py_range :: "int \<Rightarrow> int list" where
  "py_range n = [0..n - 1]"

text \<open>
  A timestamp \<^verbatim>\<open>YYYY-MM-DD HH:MM:SS\<close> is its calendar date and the seconds since
  midnight.
\<close>

record timestamp =
  ts_date :: date
  ts_seconds :: nat

text \<open>The rows of \<^verbatim>\<open>training.json\<close>, \<^verbatim>\<open>logs.json\<close> and \<^verbatim>\<open>annotations.json\<close>.\<close>

record training_row =
  tr_id :: int
  tr_source :: "string option"
  tr_title :: string
  tr_description :: string
  tr_url :: string
  tr_label :: string
  tr_embedding :: "rat list"

record request =
  rq_id :: int
  rq_source :: "string option"
  rq_title :: string
  rq_url :: string
  rq_description :: string
  rq_embedding :: "rat list"

record log_row =
  lg_id :: int
  lg_timestamp :: timestamp
  lg_host_id :: string
  lg_latency_ms :: rat
  lg_request :: request
  lg_pred_label :: string
  lg_pred_score :: "(string \<times> rat) list"

record annotation =
  an_id :: int
  an_label :: string

text \<open>
  \<^verbatim>\<open>pd.read_json(..., lines=True)\<close> gives a DataFrame: column labels and rows.
  \<^item> Iterating a DataFrame (\<^verbatim>\<open>for row in training\<close>) yields its column labels, which
    are strings, not its rows.
  \<^item> \<^verbatim>\<open>s['source']\<close> on a Python string \<open>s\<close> raises TypeError.
  \<^item> \<^verbatim>\<open>df['name']\<close> is the column of that label, KeyError when there is none; the
    field a label stands for is given with the label.
  \<^item> \<^verbatim>\<open>series == v\<close> is the column of truth values of the elementwise comparison,
    which is given with the column; \<^verbatim>\<open>df[mask]\<close> keeps the rows at which the mask is
    true, in their order.
\<close>

record 'r dataframe =
  df_columns :: "string list"
  df_rows :: "'r list"

definition iter_dataframe :: "'r dataframe \<Rightarrow> string list" where
  "iter_dataframe df = df_columns df"

definition str_getitem :: "string \<Rightarrow> string \<Rightarrow> error + 'v" where
  "str_getitem s key = Inl TypeError"

fun comprehension :: "('a \<Rightarrow> error + 'b) \<Rightarrow> 'a list \<Rightarrow> error + 'b list" where
  "comprehension f [] = Inr []"
| "comprehension f (x # xs) =
     (case f x of
        Inl e \<Rightarrow> Inl e
      | Inr y \<Rightarrow> (case comprehension f xs of Inl e \<Rightarrow> Inl e | Inr ys \<Rightarrow> Inr (y # ys)))"

definition getitem_column :: "'r dataframe \<Rightarrow> string \<Rightarrow> ('r \<Rightarrow> 'v) \<Rightarrow> error + 'v list" where
  "getitem_column df name field =
     (if name \<in> set (df_columns df) then Inr (map field (df_rows df)) else Inl KeyError)"

definition series_eq :: "('c \<Rightarrow> 'v \<Rightarrow> bool) \<Rightarrow> 'c list \<Rightarrow> 'v \<Rightarrow> bool list" where
  "series_eq cell_eq col v = map (\<lambda>x. cell_eq x v) col"

definition getitem_mask :: "'r dataframe \<Rightarrow> bool list \<Rightarrow> 'r dataframe" where
  "getitem_mask df keep = df\<lparr>df_rows := map snd (filter fst (zip keep (df_rows df)))\<rparr>"

section \<open>Part 2: records of a date\<close>

text \<open>
  \<^verbatim>\<open>logs_10_01 = logs[logs['date'] == LOG_DATE_START]['request'].tolist()\<close>,
  with the date as a parameter: first the selection of the rows, then their requests.

  The rows of \<^verbatim>\<open>logs.json\<close> have no \<^verbatim>\<open>date\<close> key and no cell of the notebook adds
  a \<^verbatim>\<open>date\<close> column to \<open>logs\<close>: on the table as loaded the label is not among the
  columns. What such a column would hold in a row, and how pandas would compare that
  cell with a \<^verbatim>\<open>datetime.date\<close>, is not in the code; both are parameters
  (\<open>date_col\<close>, \<open>cell_eq\<close>) and matter only for a table that has the label.
\<close>

definition records_on_date ::
  "(log_row \<Rightarrow> 'c) \<Rightarrow> ('c \<Rightarrow> date \<Rightarrow> bool) \<Rightarrow> log_row dataframe \<Rightarrow> date
     \<Rightarrow> error + log_row dataframe" where
  "records_on_date date_col cell_eq logs d =
     (case getitem_column logs ''date'' date_col of
        Inl e \<Rightarrow> Inl e
      | Inr dates \<Rightarrow> Inr (getitem_mask logs (series_eq cell_eq dates d)))"

definition requests_on_date ::
  "(log_row \<Rightarrow> 'c) \<Rightarrow> ('c \<Rightarrow> date \<Rightarrow> bool) \<Rightarrow> log_row dataframe \<Rightarrow> date
     \<Rightarrow> error + request list" where
  "requests_on_date date_col cell_eq logs d =
     (case records_on_date date_col cell_eq logs d of
        Inl e \<Rightarrow> Inl e
      | Inr sel \<Rightarrow> getitem_column sel ''request'' lg_request)"

definition logs_10_01 ::
  "(log_row \<Rightarrow> 'c) \<Rightarrow> ('c \<Rightarrow> date \<Rightarrow> bool) \<Rightarrow> log_row dataframe \<Rightarrow> error + request list" where
  "logs_10_01 date_col cell_eq logs = requests_on_date date_col cell_eq logs LOG_DATE_START"

definition logs_10_14 ::
  "(log_row \<Rightarrow> 'c) \<Rightarrow> ('c \<Rightarrow> date \<Rightarrow> bool) \<Rightarrow> log_row dataframe \<Rightarrow> error + request list" where
  "logs_10_14 date_col cell_eq logs = requests_on_date date_col cell_eq logs LOG_DATE_END"

section \<open>Part 2: the drift cells\<close>

text \<open>
  \<^verbatim>\<open>
  news_sources_ref = [row['source'] for row in training]
  delta = LOG_DATE_END - LOG_DATE_START
  news_sources_drift = []
  for d in range(delta.days + 1):
     curr_date = LOG_DATE_START + timedelta(days=d)
     print(curr_date)
     # Step 1: collect all requests from logs.json with timestamp on the curr_date
     # this is currently a dummy empty list
     news_sources_target = []
     # Step 2: compute the drift ... using Chi squared statistic
     # Step 3: store the pvalue in `news_sources_drift`
  \<close>
  The state of the loop is what it prints and the two lists it names.
\<close>

definition news_sources_ref :: "training_row dataframe \<Rightarrow> error + string option list" where
  "news_sources_ref training = comprehension (\<lambda>row. str_getitem row ''source'') (iter_dataframe training)"

definition delta_days :: int where
  "delta_days = LOG_DATE_END - LOG_DATE_START"

record news_state =
  ns_printed :: "date list"
  news_sources_target :: "string option list"
  news_sources_drift :: "rat list"

definition news_sources_body ::
  "string option list \<Rightarrow> log_row dataframe \<Rightarrow> int \<Rightarrow> news_state \<Rightarrow> news_state" where
  "news_sources_body ref logs d st =
     (let curr_date = LOG_DATE_START + d
      in st\<lparr>ns_printed := ns_printed st @ [curr_date], news_sources_target := []\<rparr>)"

definition news_init :: news_state where
  "news_init = \<lparr>ns_printed = [], news_sources_target = [], news_sources_drift = []\<rparr>"

definition news_sources_loop :: "string option list \<Rightarrow> log_row dataframe \<Rightarrow> news_state" where
  "news_sources_loop ref logs =
     fold (news_sources_body ref logs) (py_range (delta_days + 1)) news_init"

definition news_sources_cell :: "training_row dataframe \<Rightarrow> log_row dataframe \<Rightarrow> error + news_state" where
  "news_sources_cell training logs =
     (case news_sources_ref training of
        Inl e \<Rightarrow> Inl e
      | Inr ref \<Rightarrow> Inr (news_sources_loop ref logs))"


record embeddings_state =
  em_printed :: "date list"
  embeddings_target :: "rat list list"
  embeddings_drift :: "rat list"

definition embeddings_body ::
  "rat list list \<Rightarrow> log_row dataframe \<Rightarrow> int \<Rightarrow> embeddings_state \<Rightarrow> embeddings_state" where
  "embeddings_body ref logs d st =
     (let curr_date = LOG_DATE_START + d
      in st\<lparr>em_printed := em_printed st @ [curr_date], embeddings_target := []\<rparr>)"

definition embeddings_init :: embeddings_state where
  "embeddings_init = \<lparr>em_printed = [], embeddings_target = [], embeddings_drift = []\<rparr>"

definition embeddings_loop :: "rat list list \<Rightarrow> log_row dataframe \<Rightarrow> embeddings_state" where
  "embeddings_loop ref logs =
     fold (embeddings_body ref logs) (py_range (delta_days + 1)) embeddings_init"


section \<open>Example tables\<close>

definition training_columns :: "string list" where
  "training_columns = [''id'', ''source'', ''title'', ''description'', ''url'', ''label'', ''embedding'']"

definition log_columns :: "string list" where
  "log_columns = [''id'', ''timestamp'', ''host_id'', ''latency_ms'', ''request'', ''pred_label'',
                  ''pred_score'']"

definition example_row :: "int \<Rightarrow> string option \<Rightarrow> string \<Rightarrow> training_row" where
  "example_row i src lbl =
     \<lparr>tr_id = i, tr_source = src, tr_title = ''title'', tr_description = ''text'',
      tr_url = ''url'', tr_label = lbl, tr_embedding = [0, 1]\<rparr>"

definition example_request :: "int \<Rightarrow> string option \<Rightarrow> request" where
  "example_request i src =
     \<lparr>rq_id = i, rq_source = src, rq_title = ''title'', rq_url = ''url'',
      rq_description = ''text'', rq_embedding = [1, 0]\<rparr>"

definition example_log :: "int \<Rightarrow> int \<Rightarrow> nat \<Rightarrow> string option \<Rightarrow> string \<Rightarrow> log_row" where
  "example_log i day secs src lbl =
     \<lparr>lg_id = i, lg_timestamp = \<lparr>ts_date = mk_date 2022 10 day, ts_seconds = secs\<rparr>,
      lg_host_id = ''host_1'', lg_latency_ms = 100, lg_request = example_request i src,
      lg_pred_label = lbl, lg_pred_score = [(lbl, 1)]\<rparr>"

text \<open>
  Two training rows whose source is missing, once as null and once as the empty string,
  and one with a source.
\<close>

definition example_training :: "training_row dataframe" where
  "example_training =
     \<lparr>df_columns = training_columns,
      df_rows = [example_row 1 None ''Sports'', example_row 2 (Some []) ''Business'',
                 example_row 3 (Some ''BBC'') ''Sports'']\<rparr>"

text \<open>
  Five log rows dated 2022-10-01 to 2022-10-03, at different times of the day; the
  first has a null source. \<open>example_logs\<close> is the table as loaded, \<open>no_logs\<close> the
  table of a log with no row.
\<close>

definition example_log_rows :: "log_row list" where
  "example_log_rows =
     [example_log 1 1 0 None ''Sports'',
      example_log 2 2 3600 (Some ''BBC'') ''Sports'',
      example_log 3 3 10 (Some ''Reuters'') ''Business'',
      example_log 4 2 86399 (Some ''BBC'') ''Health'',
      example_log 5 1 43200 (Some ''AP'') ''Sports'']"

definition example_logs :: "log_row dataframe" where
  "example_logs = \<lparr>df_columns = log_columns, df_rows = example_log_rows\<rparr>"


section \<open>Bootstrap: lemmas\<close>

lemma sort_replicate: "sort (replicate n (x::rat)) = replicate n x"
  by (simp add: sorted_sort_id)

lemma length_bootstrap_distribution:
  "length (bootstrap_distribution Y_true Y_pred N) = nat N"
  by (simp add: bootstrap_distribution_def py_list_mul_def)

lemma py_index_in_range:
  "0 \<le> i \<Longrightarrow> i < int (length xs) \<Longrightarrow> py_index xs i = Inr (xs ! nat i)"
  by (simp add: py_index_def)

lemma py_index_beyond:
  "int (length xs) \<le> i \<Longrightarrow> py_index xs i = Inl IndexError"
  by (simp add: py_index_def)

lemma interval_of_long:
  assumes "976 \<le> length vals"
  shows "interval_of vals = Inr (sort vals ! 25, sort vals ! 975)"
proof -
  have "py_index (sort vals) 25 = Inr (sort vals ! 25)"
    using assms py_index_in_range [of 25 "sort vals"] by simp
  moreover have "py_index (sort vals) 975 = Inr (sort vals ! 975)"
    using assms py_index_in_range [of 975 "sort vals"] by simp
  ultimately show ?thesis
    by (simp add: interval_of_def Let_def)
qed

lemma interval_of_short:
  assumes "length vals < 976"
  shows "interval_of vals = Inl IndexError"
proof (cases "length vals \<le> 25")
  case True
  then have "py_index (sort vals) 25 = Inl IndexError"
    using py_index_beyond [of "sort vals" 25] by simp
  then show ?thesis
    by (simp add: interval_of_def Let_def)
next
  case False
  then have lo: "py_index (sort vals) 25 = Inr (sort vals ! 25)"
    using py_index_in_range [of 25 "sort vals"] by simp
  have "py_index (sort vals) 975 = Inl IndexError"
    using assms py_index_beyond [of "sort vals" 975] by simp
  with lo show ?thesis
    by (simp add: interval_of_def Let_def)
qed

lemma confidence_interval_value:
  "confidence_interval Y_true Y_pred N = (if 976 \<le> N then Inr (0, 0) else Inl IndexError)"
proof (cases "976 \<le> N")
  case True
  then have len: "976 \<le> length (bootstrap_distribution Y_true Y_pred N)"
    by (simp add: length_bootstrap_distribution)
  have "sort (bootstrap_distribution Y_true Y_pred N) = replicate (nat N) 0"
    by (simp add: bootstrap_distribution_def py_list_mul_def sort_replicate)
  moreover have "replicate (nat N) (0::rat) ! 25 = 0" "replicate (nat N) (0::rat) ! 975 = 0"
    using True by simp_all
  ultimately show ?thesis
    using True interval_of_long [OF len] by (simp add: confidence_interval_def)
next
  case False
  then have "length (bootstrap_distribution Y_true Y_pred N) < 976"
    by (simp add: length_bootstrap_distribution)
  then show ?thesis
    using False interval_of_short by (simp add: confidence_interval_def)
qed

section \<open>Dates, tables and loops: lemmas\<close>

lemma delta_days_value: "delta_days = 13"
  by (simp add: delta_days_def LOG_DATE_END_def LOG_DATE_START_def mk_date_def)

lemma py_range_14: "py_range (delta_days + 1) = [0, 1, 2, 3, 4, 5, 6, 7, 8, 9, 10, 11, 12, 13]"
  unfolding delta_days_value py_range_def by code_simp

lemma LOG_DATE_START_value: "LOG_DATE_START = 738429"
  by (simp add: LOG_DATE_START_def mk_date_def days_before_year_def days_before_month_def is_leap_def)

lemma comprehension_str_getitem:
  "comprehension (\<lambda>row. str_getitem row key) cols = (if cols = [] then Inr [] else Inl TypeError)"
  by (cases cols) (simp_all add: str_getitem_def)

lemma fold_news_sources_body:
  "fold (news_sources_body ref logs) ds st =
     st\<lparr>ns_printed := ns_printed st @ map (\<lambda>d. LOG_DATE_START + d) ds,
        news_sources_target := (if ds = [] then news_sources_target st else [])\<rparr>"
  by (induction ds arbitrary: st) (simp_all add: news_sources_body_def)

lemma news_sources_loop_value:
  "news_sources_loop ref logs =
     \<lparr>ns_printed = map (\<lambda>d. LOG_DATE_START + d) (py_range (delta_days + 1)),
      news_sources_target = [], news_sources_drift = []\<rparr>"
proof -
  have "py_range (delta_days + 1) \<noteq> []" by (simp add: py_range_14)
  then show ?thesis
    by (simp add: news_sources_loop_def fold_news_sources_body news_init_def)
qed

lemma fold_embeddings_body:
  "fold (embeddings_body ref logs) ds st =
     st\<lparr>em_printed := em_printed st @ map (\<lambda>d. LOG_DATE_START + d) ds,
        embeddings_target := (if ds = [] then embeddings_target st else [])\<rparr>"
  by (induction ds arbitrary: st) (simp_all add: embeddings_body_def)

lemma embeddings_loop_value:
  "embeddings_loop ref logs =
     \<lparr>em_printed = map (\<lambda>d. LOG_DATE_START + d) (py_range (delta_days + 1)),
      embeddings_target = [], embeddings_drift = []\<rparr>"
proof -
  have "py_range (delta_days + 1) \<noteq> []" by (simp add: py_range_14)
  then show ?thesis
    by (simp add: embeddings_loop_def fold_embeddings_body embeddings_init_def)
qed

lemma mask_filter:
  "map snd (filter fst (zip (series_eq cell_eq (map f rows) d) rows))
     = filter (\<lambda>r. cell_eq (f r) d) rows"
  by (induction rows) (simp_all add: series_eq_def)

lemma records_on_date_value:
  "records_on_date date_col cell_eq logs d =
     (if ''date'' \<in> set (df_columns logs)
      then Inr (logs\<lparr>df_rows := filter (\<lambda>r. cell_eq (date_col r) d) (df_rows logs)\<rparr>)
      else Inl KeyError)"
  by (simp add: records_on_date_def getitem_column_def getitem_mask_def mask_filter)

lemma ratio_correct_bounds:
  assumes "ps \<noteq> []"
  shows "0 \<le> ratio_correct ps \<and> ratio_correct ps \<le> 1"
proof -
  have "length (filter (\<lambda>(t, p). p = t) ps) \<le> length ps"
    by (rule length_filter_le)
  moreover have "0 < length ps" using assms by simp
  ultimately show ?thesis
    by (simp add: ratio_correct_def divide_le_eq_1)
qed

lemma ratio_correct_mset:
  assumes "mset ps = mset qs"
  shows "ratio_correct ps = ratio_correct qs"
proof -
  have "length (filter P ps) = length (filter P qs)" for P
    using assms by (metis mset_filter size_mset)
  moreover have "length ps = length qs"
    using assms by (metis size_mset)
  ultimately show ?thesis by (simp add: ratio_correct_def)
qed

lemma accuracy_of_pairs_mset:
  assumes "mset ps = mset qs"
  shows "accuracy_of_pairs ps = accuracy_of_pairs qs"
proof -
  have "ps = [] \<longleftrightarrow> qs = []" using assms by (metis mset_zero_iff)
  then show ?thesis using ratio_correct_mset [OF assms] by (simp add: accuracy_of_pairs_def)
qed

lemma ratio_correct_agree:
  assumes "idx \<noteq> []"
  shows "ratio_correct (resample Y Y idx) = 1"
proof -
  have "filter (\<lambda>(t, p). p = t) (resample Y Y idx) = resample Y Y idx"
    by (simp add: resample_def)
  moreover have "length (resample Y Y idx) \<noteq> 0"
    using assms by (simp add: resample_def)
  ultimately show ?thesis by (simp add: ratio_correct_def)
qed

section \<open>Cells: lemmas\<close>

lemma interval_of_value:
  "interval_of vals =
     (if 976 \<le> length vals then Inr (sort vals ! 25, sort vals ! 975) else Inl IndexError)"
  using interval_of_long [of vals] interval_of_short [of vals] by simp

lemma described_all_agree:
  assumes "valid_draws M N draws" "0 < M"
  shows "described_bootstrap_distribution draws Y Y = replicate N 1"
proof -
  have "ratio_correct (resample Y Y idx) = 1" if "idx \<in> set draws" for idx
  proof -
    have "length idx = M" using assms(1) that by (auto simp: valid_draws_def list_all_iff)
    with assms(2) have "idx \<noteq> []" by auto
    then show ?thesis by (rule ratio_correct_agree)
  qed
  then have "map (\<lambda>idx. ratio_correct (resample Y Y idx)) draws = replicate (length draws) 1"
    by (simp add: map_replicate_const [symmetric] cong: map_cong)
  then show ?thesis
    using assms(1) by (simp add: described_bootstrap_distribution_def valid_draws_def)
qed

lemma interval_of_replicate:
  assumes "976 \<le> n"
  shows "interval_of (replicate n x) = Inr (x, x)"
  using assms interval_of_long [of "replicate n x"] by (simp add: sort_replicate)

lemma valid_draws_replicate: "valid_draws 1 1000 (replicate 1000 [0])"
  by (simp add: valid_draws_def list_all_iff)

lemma news_sources_cell_value:
  "news_sources_cell training logs =
     (if df_columns training = [] then Inr (news_sources_loop [] logs) else Inl TypeError)"
  by (simp add: news_sources_cell_def news_sources_ref_def iter_dataframe_def
      comprehension_str_getitem)


lemma example_training_columns: "df_columns example_training \<noteq> []"
  by (simp add: example_training_def training_columns_def)

lemma rows_of_first_day:
  "map (\<lambda>r. rq_source (lg_request r))
       (filter (\<lambda>r. ts_date (lg_timestamp r) = LOG_DATE_START) (df_rows example_logs))
     = [None, Some ''AP'']"
  by (simp add: example_logs_def example_log_rows_def example_log_def example_request_def
      LOG_DATE_START_def mk_date_def)

lemma py_range_days: "py_range (delta_days + 1) = [0..13]"
  by (simp add: py_range_def delta_days_value)


lemma records_on_date_without_column:
  "records_on_date date_col cell_eq example_logs d = Inl KeyError"
  by (simp add: records_on_date_value example_logs_def log_columns_def)

lemma rows_of_second_day:
  "filter (\<lambda>r. ts_date (lg_timestamp r) = mk_date 2022 10 2) (df_rows example_logs)
     = [example_log 2 2 3600 (Some ''BBC'') ''Sports'',
        example_log 4 2 86399 (Some ''BBC'') ''Health'']"
  by (simp add: example_logs_def example_log_rows_def example_log_def mk_date_def)

section \<open>The claims\<close>

text \<open>
  C1 (fails on the code). The claim: the categorical drift detector computes, for each
  day, the chi-square statistic of the day's target counts against the reference and
  returns its p-value. The cell's own comments ask for it (Step 2, Step 3). The code:
  on a training table with columns, building the reference list raises TypeError, since
  iterating the table yields its column labels; and the loop, run on any reference
  list, sets the target to the empty list and stores nothing, so the list of p-values is
  empty.
\<close>

theorem news_sources_no_pvalue:
  "news_sources_cell example_training example_logs = Inl TypeError
   \<and> news_sources_drift (news_sources_loop ref example_logs) = []"
  by (simp add: news_sources_cell_value example_training_columns news_sources_loop_value)

text \<open>
  C2 (fails on the code). The claim: the bootstrap procedure resamples the paired labels
  \<open>N\<close> times, computes the accuracy of each resample, sorts, and reports the values
  at the positions of the 2.5th and 97.5th percentiles. The docstring asks for it. On
  one true label and the same predicted label every resample has accuracy 1, whatever
  is drawn, so the described interval is \<open>(1, 1)\<close>; the code returns \<open>(0, 0)\<close>.
\<close>

theorem bootstrap_returns_zeros:
  "confidence_interval [''Health''] [''Health''] NUM_BOOTSTRAP = Inr (0, 0)
   \<and> (\<forall>draws. valid_draws 1 1000 draws \<longrightarrow>
         interval_of (described_bootstrap_distribution draws [''Health''] [''Health'']) = Inr (1, 1))"
  by (simp add: confidence_interval_value NUM_BOOTSTRAP_def described_all_agree
      interval_of_replicate)

text \<open>
  C2, witness: one thousand draws of the only index satisfy the hypothesis on the draws.
\<close>

theorem bootstrap_returns_zeros_witness:
  "valid_draws 1 1000 (replicate 1000 [0])
   \<and> interval_of (described_bootstrap_distribution (replicate 1000 [0]) [''Health''] [''Health''])
       = Inr (1, 1)
   \<and> confidence_interval [''Health''] [''Health''] NUM_BOOTSTRAP = Inr (0, 0)"
  using bootstrap_returns_zeros valid_draws_replicate by blast

text \<open>
  C3 (fails on the code). The claim: on empty label sequences the computation fails
  with an explicit error and returns no bound taken from a list of zeros. The docstring
  makes every returned value the accuracy of a bootstrap run, and no run exists on no
  labels. The code ignores the labels: the notebook's second cell runs it on the empty
  cohort lists with 1000 trials, gets the thousand zeros of the placeholder and prints
  the bounds \<open>(0, 0)\<close>.
\<close>

theorem empty_input_returns_bounds:
  "confidence_interval [] [] 1000 = Inr (0, 0) \<and> health_interval = Inr (0, 0)"
  by (simp add: confidence_interval_value health_interval_def NUM_BOOTSTRAP_def)

text \<open>
  C4 (fails on the code). The claim: before counting, a null source is mapped to one
  reserved value in the reference and in the target, and no record is dropped. The
  docstring asks for missing values to be dealt with in a consistent way. The code has
  no such mapping: on the example training table, which holds a null and an empty
  source, the reference list is not built (TypeError); the log rows of the first day
  hold a null source, and the target list of that day, as of every day, is empty.
\<close>

theorem null_sources_not_bucketed:
  "news_sources_cell example_training example_logs = Inl TypeError
   \<and> map (\<lambda>r. rq_source (lg_request r))
          (filter (\<lambda>r. ts_date (lg_timestamp r) = LOG_DATE_START) (df_rows example_logs))
       = [None, Some ''AP'']
   \<and> news_sources_target (news_sources_body ref example_logs 0 news_init) = []
   \<and> news_sources_target (news_sources_loop ref example_logs) = []"
  by (simp add: news_sources_cell_value example_training_columns news_sources_loop_value
      rows_of_first_day news_sources_body_def)


text \<open>
  C7 (fails on the code). The claim: the records of a date are exactly the rows whose
  timestamp has that calendar date, in arrival order, and an empty sequence, never an
  error, when there is none. The notebook's text asks for it (the requests "with
  timestamp on the curr_date"; "we will use the timestamp to group requests by date").
  The code selects by a \<^verbatim>\<open>date\<close> column that no cell creates: on the table as loaded
  the selection raises KeyError for every date, whatever such a column would hold. Of
  the five example rows two have a timestamp on 2022-10-02.
\<close>

theorem records_on_date_key_error:
  "records_on_date date_col cell_eq example_logs d = Inl KeyError
   \<and> logs_10_01 date_col cell_eq example_logs = Inl KeyError
   \<and> logs_10_14 date_col cell_eq example_logs = Inl KeyError
   \<and> filter (\<lambda>r. ts_date (lg_timestamp r) = mk_date 2022 10 2) (df_rows example_logs)
       = [example_log 2 2 3600 (Some ''BBC'') ''Sports'',
          example_log 4 2 86399 (Some ''BBC'') ''Health'']"
  by (simp add: logs_10_01_def logs_10_14_def requests_on_date_def
      records_on_date_without_column rows_of_second_day)

text \<open>
  C8 (fails on the code). The claim: the drift detectors emit exactly one result for
  each date from LOG_DATE_START to LOG_DATE_END, in ascending order, each day on its
  own. The comments of both loops ask for the day's p-value to be stored. Both loops
  visit the fourteen dates in ascending order and carry nothing from one day to the
  next, but neither stores anything: the two result lists have length 0.
\<close>

theorem no_result_per_day:
  "ns_printed (news_sources_loop ref logs) = map (\<lambda>d. LOG_DATE_START + d) [0..13]
   \<and> em_printed (embeddings_loop eref logs) = map (\<lambda>d. LOG_DATE_START + d) [0..13]
   \<and> LOG_DATE_START + 13 = LOG_DATE_END
   \<and> length (ns_printed (news_sources_loop ref logs)) = 14
   \<and> length (news_sources_drift (news_sources_loop ref logs)) = 0
   \<and> length (embeddings_drift (embeddings_loop eref logs)) = 0"
proof -
  note r = py_range_days
  have "LOG_DATE_START + 13 = LOG_DATE_END"
    using delta_days_value by (simp add: delta_days_def)
  then show ?thesis
    by (simp add: news_sources_loop_value embeddings_loop_value r)
qed

text \<open>
  C9. Accuracy is a function of the joined pairs as a collection: two lists holding the
  same pairs, in any order, have the same accuracy; every accuracy that is computed lies
  between 0 and 1.
\<close>

theorem accuracy_idempotent_bounded:
  "(mset ps = mset qs \<longrightarrow> accuracy_of_pairs ps = accuracy_of_pairs qs)
   \<and> (accuracy_of_pairs ps = Some a \<longrightarrow> 0 \<le> a \<and> a \<le> 1)
   \<and> (accuracy_score y_true y_pred = Inr (Some b) \<longrightarrow> 0 \<le> b \<and> b \<le> 1)"
proof -
  have bound: "0 \<le> x \<and> x \<le> 1" if "accuracy_of_pairs zs = Some x" for zs x
    using that ratio_correct_bounds [of zs]
    by (auto simp: accuracy_of_pairs_def split: if_splits)
  have score: "0 \<le> b \<and> b \<le> 1" if "accuracy_score y_true y_pred = Inr (Some b)"
    using that bound [of "zip y_true y_pred" b]
    by (auto simp: accuracy_score_def split: if_splits)
  show ?thesis
    using bound [of ps a] score accuracy_of_pairs_mset [of ps qs]
    by blast
qed

text \<open>C9, witness: two pairs in both orders, one of them right.\<close>

theorem accuracy_idempotent_bounded_witness:
  "mset [(''Health'', ''Health''), (''Sports'', ''Health'')]
     = mset [(''Sports'', ''Health''), (''Health'', ''Health'')]
   \<and> accuracy_of_pairs [(''Health'', ''Health''), (''Sports'', ''Health'')] = Some (1 / 2)
   \<and> accuracy_of_pairs [(''Sports'', ''Health''), (''Health'', ''Health'')] = Some (1 / 2)
   \<and> accuracy_score [''Health'', ''Sports''] [''Health'', ''Health''] = Inr (Some (1 / 2))
   \<and> (0::rat) \<le> 1 / 2 \<and> (1 / 2 :: rat) \<le> 1"
proof -
  have p: "mset [(''Health'', ''Health''), (''Sports'', ''Health'')]
             = mset [(''Sports'', ''Health''), (''Health'', ''Health'')]"
    by simp
  have a: "accuracy_of_pairs [(''Health'', ''Health''), (''Sports'', ''Health'')] = Some (1 / 2)"
    by (simp add: accuracy_of_pairs_def ratio_correct_def)
  have s: "accuracy_score [''Health'', ''Sports''] [''Health'', ''Health''] = Inr (Some (1 / 2))"
    by (simp add: accuracy_score_def accuracy_of_pairs_def ratio_correct_def)
  note inst = accuracy_idempotent_bounded [of "[(''Health'', ''Health''), (''Sports'', ''Health'')]"
        "[(''Sports'', ''Health''), (''Health'', ''Health'')]" "1 / 2"
        "[''Health'', ''Sports'']" "[''Health'', ''Health'']" "1 / 2"]
  from inst p a have a': "accuracy_of_pairs [(''Sports'', ''Health''), (''Health'', ''Health'')] = Some (1 / 2)"
    by simp
  from inst s have z: "(0::rat) \<le> 1 / 2 \<and> (1 / 2 :: rat) \<le> 1"
    by blast
  show ?thesis
    using p a a' s z by (intro conjI) simp_all
qed

text \<open>
  C10. The interval is read at the positions 25 and 975 of the sorted list whatever the
  trial count: the reads succeed exactly when the list has at least 976 values;
  \<open>bootstrap_distribution\<close> returns \<open>N\<close> values, so with 1000 trials both reads
  succeed, and with fewer than 976 trials the cell fails with IndexError.
\<close>

theorem fixed_percentile_positions:
  "interval_of vals =
     (if 976 \<le> length vals then Inr (sort vals ! 25, sort vals ! 975) else Inl IndexError)
   \<and> length (bootstrap_distribution Y_true Y_pred N) = nat N
   \<and> (\<exists>b. confidence_interval Y_true Y_pred NUM_BOOTSTRAP = Inr b)
   \<and> (N < 976 \<longrightarrow> confidence_interval Y_true Y_pred N = Inl IndexError)"
  by (simp add: interval_of_value length_bootstrap_distribution confidence_interval_value
      NUM_BOOTSTRAP_def)

text \<open>C10, witness: 500 trials, and a list of 975 values.\<close>

theorem fixed_percentile_positions_witness:
  "(500::int) < 976 \<and> confidence_interval [''Health''] [''Sports''] 500 = Inl IndexError
   \<and> length (bootstrap_distribution [''Health''] [''Sports''] 500) = 500
   \<and> interval_of (replicate 975 1) = Inl IndexError"
  using fixed_percentile_positions [of "replicate 975 1" "[''Health'']" "[''Sports'']" 500]
  by simp

end
